theory Spec2Isabelle
  imports Main "HOL-Library.Word"
begin

section \<open>The Wi-Fi station API of \<^verbatim>\<open>wifi_api.c\<close>\<close>

text \<open>
  The module keeps five file-scope variables and talks to three collaborators: the
  Wi-Fi/netif/event SDK, the RTOS semaphore API and the logger. The model keeps the
  variables in a record, records every call into a collaborator in a trace (in the order
  the code makes them), and takes what the collaborators answer as a parameter.
\<close>

subsection \<open>Values exchanged with the collaborators\<close>

text \<open>Pointers handed out by the collaborators are opaque; \<open>NULL\<close> is \<open>None\<close>.\<close>

type_synonym handle = nat

text \<open>
  \<open>esp_err_t\<close>: the code only ever compares against \<open>ESP_OK\<close> and returns \<open>ESP_OK\<close>
  or \<open>ESP_FAIL\<close>; every other code a collaborator may answer is \<open>ESP_ERR n\<close>.
\<close>

datatype esp_err_t = ESP_OK | ESP_FAIL | ESP_ERR nat

datatype event_base = WIFI_EVENT | IP_EVENT

text \<open>
  The event identifiers are enumerators of the SDK headers. The handler's \<open>switch\<close> has
  three case labels (necessarily distinct) and a \<open>default\<close>; every identifier that is
  none of the three is \<open>OTHER_EVENT_ID\<close> with its number.
\<close>

datatype event_id =
    WIFI_EVENT_STA_START
  | WIFI_EVENT_STA_DISCONNECTED
  | IP_EVENT_STA_GOT_IP
  | OTHER_EVENT_ID int

datatype event_pattern = ESP_EVENT_ANY_ID | EVENT event_id

text \<open>
  A delivered event: the arguments of the handler but \<open>arg\<close>, which is registered as
  \<open>NULL\<close> and never read. \<open>event_data\<close> is read only for \<open>IP_EVENT_STA_GOT_IP\<close>, as
  the acquired address \<open>event->ip_info.ip\<close>.
\<close>

record event =
  ev_base :: event_base
  ev_id :: event_id
  ev_data :: "32 word"

text \<open>
  \<open>wifi_config_t.sta\<close>: the two byte arrays the code writes and the threshold it
  initialises. A C string is a \<open>string\<close>; the terminator is \<open>NUL\<close>.
\<close>

record wifi_config =
  ssid :: string
  password :: string
  threshold_authmode :: "32 word"

record wifi_ap_record =
  ap_ssid :: string
  ap_rssi :: int
  ap_authmode :: "32 word"
  ap_primary :: nat

datatype log_arg = Str string | Num int | Ip4 "32 word"

text \<open>
  Every call the module makes into a collaborator, with the arguments that vary.
  \<open>ESP_LOGI\<close> and \<open>ESP_LOGE\<close> carry the format string and its arguments (\<open>IP2STR\<close> is
  kept as the address it splits into octets).
\<close>

datatype sdk_call =
    ESP_LOGI string "log_arg list"
  | ESP_LOGE string
  | nvs_flash_init
  | xSemaphoreCreateBinary
  | esp_netif_init
  | esp_event_loop_create_default
  | esp_wifi_init
  | esp_netif_create_wifi
  | esp_wifi_set_default_wifi_sta_handlers
  | esp_wifi_set_storage
  | esp_wifi_set_mode
  | esp_wifi_start
  | esp_event_handler_instance_register event_base event_pattern
  | esp_event_handler_instance_unregister event_base event_pattern "handle option"
  | esp_wifi_get_config
  | esp_wifi_set_config wifi_config
  | esp_wifi_connect
  | esp_wifi_disconnect
  | xSemaphoreTake "handle option"
  | xSemaphoreGive "handle option"
  | vSemaphoreDelete "handle option"
  | esp_register_shutdown_handler
  | esp_wifi_scan_start
  | esp_wifi_scan_get_ap_num
  | esp_wifi_scan_get_ap_records nat

text \<open>
  What the collaborators answer during one call of an API function: the \<open>esp_err_t\<close> of
  each call, the pointers they hand out, the configuration \<open>esp_wifi_get_config\<close> leaves
  in \<open>wc\<close>, and what the scan found.
\<close>

record sdk =
  sdk_err :: "sdk_call \<Rightarrow> esp_err_t"
  sdk_semaphore :: "handle option"
  sdk_netif :: "handle option"
  sdk_instance :: "event_base \<Rightarrow> handle option"
  sdk_config :: wifi_config
  sdk_ap_num :: nat
  sdk_ap_records :: "wifi_ap_record list"

subsection \<open>The module's state\<close>

text \<open>
  The five \<open>static\<close> variables, the binary semaphores that exist (\<open>Some True\<close>: given
  and not yet taken), and the trace of collaborator calls.
\<close>

record wifi_state =
  s_sta_netif :: "handle option"
  s_ip_semaphore :: "handle option"
  s_retry_num :: "32 word"
  instance_any_id :: "handle option"
  instance_got_ip :: "handle option"
  semaphores :: "handle \<Rightarrow> bool option"
  trace :: "sdk_call list"

definition MAX_RETRY :: "8 word" where
  "MAX_RETRY = 10"

text \<open>The initialisers of the five variables; no semaphore exists, nothing was called.\<close>

definition initial_state :: wifi_state where
  "initial_state =
     \<lparr>s_sta_netif = None, s_ip_semaphore = None, s_retry_num = 0,
      instance_any_id = None, instance_got_ip = None,
      semaphores = (\<lambda>h. None), trace = []\<rparr>"

definition call :: "sdk_call \<Rightarrow> wifi_state \<Rightarrow> wifi_state" where
  "call c st = st\<lparr>trace := trace st @ [c]\<rparr>"

text \<open>
  \<open>xSemaphoreGive\<close> on a binary semaphore: the semaphore becomes available (it stays
  so when it already is). The handle is passed as the code holds it; a handle that names
  no live semaphore changes none.
\<close>

definition sem_give :: "handle option \<Rightarrow> wifi_state \<Rightarrow> wifi_state" where
  "sem_give p st =
     (let st' = call (xSemaphoreGive p) st in
      case p of
        None \<Rightarrow> st'
      | Some h \<Rightarrow>
          (case semaphores st' h of
             None \<Rightarrow> st'
           | Some b \<Rightarrow> st'\<lparr>semaphores := (semaphores st')(h := Some True)\<rparr>))"

subsection \<open>The event handler\<close>

text \<open>
  \<open>wifi_api_event_handler\<close>: the \<open>switch\<close> on \<open>event_id\<close> alone. The comparison
  \<open>s_retry_num < MAX_RETRY\<close> is between an \<open>int\<close> and a \<open>uint8_t\<close> promoted to
  \<open>int\<close>, so it is signed. The results of \<open>esp_wifi_connect\<close> and \<open>xSemaphoreGive\<close>
  are discarded.
\<close>

definition wifi_api_event_handler :: "event \<Rightarrow> wifi_state \<Rightarrow> wifi_state" where
  "wifi_api_event_handler ev st =
     (case ev_id ev of
        WIFI_EVENT_STA_START \<Rightarrow> call esp_wifi_connect st
      | WIFI_EVENT_STA_DISCONNECTED \<Rightarrow>
          (if s_retry_num st <s ucast MAX_RETRY then
             (let st1 = call esp_wifi_connect st;
                  st2 = st1\<lparr>s_retry_num := s_retry_num st1 + 1\<rparr>
              in call (ESP_LOGI ''Retry to connect to the AP'' []) st2)
           else
             (let st1 = sem_give (s_ip_semaphore st) st
              in call (ESP_LOGI ''Connect to the AP fail'' []) st1))
      | IP_EVENT_STA_GOT_IP \<Rightarrow>
          (let st1 = st\<lparr>s_retry_num := 0\<rparr>;
               st2 = call (ESP_LOGI ''Got ip:%d.%d.%d.%d'' [Ip4 (ev_data ev)]) st1
           in sem_give (s_ip_semaphore st2) st2)
      | OTHER_EVENT_ID n \<Rightarrow> st)"

text \<open>The events the SDK delivers, one handler invocation after the other.\<close>

fun deliver :: "event list \<Rightarrow> wifi_state \<Rightarrow> wifi_state" where
  "deliver [] st = st"
| "deliver (ev # evs) st = deliver evs (wifi_api_event_handler ev st)"

subsection \<open>Aborting checks and blocking\<close>

text \<open>
  An API call either returns, or stops in \<open>abort()\<close> because \<open>ESP_ERROR_CHECK\<close> saw a
  code other than \<open>ESP_OK\<close>, or stays blocked in \<open>xSemaphoreTake\<close> because no
  delivered event ever gives the semaphore. The state reached is kept in every case.
\<close>

datatype halt = Abort sdk_call | Blocked

type_synonym 'a result = "(halt + 'a) \<times> wifi_state"

text \<open>\<open>ESP_ERROR_CHECK(c)\<close>, followed by the rest \<open>k\<close> of the function.\<close>

definition ESP_ERROR_CHECK ::
  "sdk \<Rightarrow> sdk_call \<Rightarrow> (wifi_state \<Rightarrow> 'a result) \<Rightarrow> wifi_state \<Rightarrow> 'a result" where
  "ESP_ERROR_CHECK env c k st =
     (let st' = call c st in
      if sdk_err env c = ESP_OK then k st' else (Inl (Abort c), st'))"

text \<open>
  \<open>xSemaphoreCreateBinary\<close>: the new semaphore is empty; \<open>NULL\<close> when the RTOS has no
  memory for it. \<open>vSemaphoreDelete\<close>: the semaphore no longer exists.
\<close>

definition sem_create :: "sdk \<Rightarrow> wifi_state \<Rightarrow> handle option \<times> wifi_state" where
  "sem_create env st =
     (let st' = call xSemaphoreCreateBinary st in
      case sdk_semaphore env of
        None \<Rightarrow> (None, st')
      | Some h \<Rightarrow> (Some h, st'\<lparr>semaphores := (semaphores st')(h := Some False)\<rparr>))"

definition sem_delete :: "handle option \<Rightarrow> wifi_state \<Rightarrow> wifi_state" where
  "sem_delete p st =
     (let st' = call (vSemaphoreDelete p) st in
      case p of
        None \<Rightarrow> st'
      | Some h \<Rightarrow> st'\<lparr>semaphores := (semaphores st')(h := None)\<rparr>)"

definition sem_available :: "handle option \<Rightarrow> wifi_state \<Rightarrow> bool" where
  "sem_available p st = (case p of None \<Rightarrow> False | Some h \<Rightarrow> semaphores st h = Some True)"

definition sem_taken :: "handle option \<Rightarrow> wifi_state \<Rightarrow> wifi_state" where
  "sem_taken p st =
     (case p of None \<Rightarrow> st | Some h \<Rightarrow> st\<lparr>semaphores := (semaphores st)(h := Some False)\<rparr>)"

text \<open>
  \<open>xSemaphoreTake(p, portMAX_DELAY)\<close>, after the call is made: the caller stays blocked
  while the events are handled one by one, and wakes, taking the semaphore, as soon as it
  is available. The result says whether the caller woke, with the state reached; \<open>False\<close>:
  the events ran out with the caller still blocked.
\<close>

fun blocked_on :: "handle option \<Rightarrow> event list \<Rightarrow> wifi_state \<Rightarrow> bool \<times> wifi_state" where
  "blocked_on p [] st = (if sem_available p st then (True, sem_taken p st) else (False, st))"
| "blocked_on p (ev # evs) st =
     (if sem_available p st then (True, sem_taken p st)
      else blocked_on p evs (wifi_api_event_handler ev st))"

subsection \<open>Strings and constants of the SDK\<close>

definition NUL :: char where
  "NUL = CHR 0x00"

definition TAB :: char where
  "TAB = CHR 0x09"

text \<open>
  \<open>strncpy(dest, src, n)\<close>: the characters of \<open>src\<close> before its terminator, at most
  \<open>n\<close> of them, padded with \<open>NUL\<close> to \<open>n\<close> characters; \<open>dest\<close> keeps what lies
  beyond.
\<close>

definition strncpy :: "string \<Rightarrow> string \<Rightarrow> nat \<Rightarrow> string" where
  "strncpy dest src n =
     take n (takeWhile (\<lambda>c. c \<noteq> NUL) src @ replicate n NUL) @ drop n dest"

text \<open>
  Modelled from the spec: the numeric codes of the \<open>wifi_auth_mode_t\<close> enumerators,
  which are declared in the SDK headers and not in the repository. The spec's scan
  scenario gives them as 0, 1, 2, 3 and 4.
\<close>

definition WIFI_AUTH_OPEN :: "32 word" where
  "WIFI_AUTH_OPEN = 0"

definition WIFI_AUTH_WEP :: "32 word" where
  "WIFI_AUTH_WEP = 1"

definition WIFI_AUTH_WPA_PSK :: "32 word" where
  "WIFI_AUTH_WPA_PSK = 2"

definition WIFI_AUTH_WPA2_PSK :: "32 word" where
  "WIFI_AUTH_WPA2_PSK = 3"

definition WIFI_AUTH_WPA_WPA2_PSK :: "32 word" where
  "WIFI_AUTH_WPA_WPA2_PSK = 4"

subsection \<open>\<open>wifi_api_configure\<close>\<close>

text \<open>
  The body in source order. \<open>evs\<close> are the events the SDK delivers while the caller is
  blocked in \<open>xSemaphoreTake\<close>; the caller resumes right after the handler invocation
  that gives the semaphore. \<open>MAX_RETRY\<close> is promoted to \<open>int\<close> in
  \<open>s_retry_num > MAX_RETRY\<close>, a signed comparison.
\<close>

definition wifi_api_configure ::
  "sdk \<Rightarrow> string \<Rightarrow> string \<Rightarrow> event list \<Rightarrow> wifi_state \<Rightarrow> esp_err_t result" where
  "wifi_api_configure env ssid_arg password_arg evs =
     ESP_ERROR_CHECK env nvs_flash_init
     (\<lambda>st.
        let st = call (ESP_LOGI ''Configuring Wi-Fi...'' []) st;
            (sem, st) = sem_create env st;
            st = st\<lparr>s_ip_semaphore := sem\<rparr>
        in
        if s_ip_semaphore st = None then
          (Inr ESP_FAIL, call (ESP_LOGE ''Failed to create semaphore'') st)
        else
          (ESP_ERROR_CHECK env esp_netif_init
          (ESP_ERROR_CHECK env esp_event_loop_create_default
          (ESP_ERROR_CHECK env esp_wifi_init
          (\<lambda>st.
             let st = (call esp_netif_create_wifi st)\<lparr>s_sta_netif := sdk_netif env\<rparr>;
                 st = call esp_wifi_set_default_wifi_sta_handlers st
             in
             (ESP_ERROR_CHECK env esp_wifi_set_storage
             (ESP_ERROR_CHECK env esp_wifi_set_mode
             (ESP_ERROR_CHECK env esp_wifi_start
             (\<lambda>st.
                let wc = \<lparr>ssid = replicate 32 NUL, password = replicate 64 NUL,
                          threshold_authmode = WIFI_AUTH_WPA2_PSK\<rparr>;
                    wc = wc\<lparr>ssid := strncpy (ssid wc) ssid_arg 32\<rparr>;
                    wc = wc\<lparr>password := strncpy (password wc) password_arg 64\<rparr>
                in
                (ESP_ERROR_CHECK env
                   (esp_event_handler_instance_register WIFI_EVENT ESP_EVENT_ANY_ID)
                (\<lambda>st.
                   (ESP_ERROR_CHECK env
                      (esp_event_handler_instance_register IP_EVENT (EVENT IP_EVENT_STA_GOT_IP))
                   (\<lambda>st.
                      let st = st\<lparr>instance_got_ip := sdk_instance env IP_EVENT\<rparr>;
                          st = call (ESP_LOGI ''Connecting to %s...'' [Str (ssid wc)]) st
                      in
                      (ESP_ERROR_CHECK env (esp_wifi_set_config wc)
                      (ESP_ERROR_CHECK env esp_wifi_connect
                      (\<lambda>st.
                         let st = call (xSemaphoreTake (s_ip_semaphore st)) st;
                             (woken, st) = blocked_on (s_ip_semaphore st) evs st
                         in
                         if \<not> woken then (Inl Blocked, st)
                         else if ucast MAX_RETRY <s s_retry_num st then (Inr ESP_FAIL, st)
                         else
                           ESP_ERROR_CHECK env esp_register_shutdown_handler
                             (\<lambda>st. (Inr ESP_OK, st)) st))) st))
                   (st\<lparr>instance_any_id := sdk_instance env WIFI_EVENT\<rparr>))) st)))) st)))) st)"

subsection \<open>\<open>wifi_api_disconnect\<close>\<close>

text \<open>
  Both handles are passed to the unregistration as the variables hold them, the semaphore
  is deleted when the variable is not \<open>NULL\<close>, and none of the three variables is
  written.
\<close>

definition wifi_api_disconnect :: "sdk \<Rightarrow> wifi_state \<Rightarrow> esp_err_t result" where
  "wifi_api_disconnect env st0 =
     (let st = call (ESP_LOGI ''Disconnecting Wi-Fi...'' []) st0 in
      ESP_ERROR_CHECK env
        (esp_event_handler_instance_unregister WIFI_EVENT ESP_EVENT_ANY_ID (instance_any_id st))
      (\<lambda>st.
         ESP_ERROR_CHECK env
           (esp_event_handler_instance_unregister IP_EVENT (EVENT IP_EVENT_STA_GOT_IP)
              (instance_got_ip st))
         (\<lambda>st.
            let st = (if s_ip_semaphore st \<noteq> None
                      then sem_delete (s_ip_semaphore st) st else st);
                st = call esp_wifi_disconnect st
            in (Inr (sdk_err env esp_wifi_disconnect), st)) st) st)"

subsection \<open>\<open>wifi_api_alter_sta\<close>\<close>

text \<open>
  No result of the four SDK calls is read. \<open>wc\<close> is what \<open>esp_wifi_get_config\<close>
  left in it, whatever that call answered.
\<close>

definition wifi_api_alter_sta ::
  "sdk \<Rightarrow> string \<Rightarrow> string \<Rightarrow> wifi_state \<Rightarrow> esp_err_t result" where
  "wifi_api_alter_sta env new_ssid new_password st0 =
     (let st = call (ESP_LOGI ''Updating STA configuration...'' []) st0;
          st = call esp_wifi_get_config st;
          wc = sdk_config env;
          wc = wc\<lparr>ssid := strncpy (ssid wc) new_ssid (32 - 1)\<rparr>;
          wc = wc\<lparr>password := strncpy (password wc) new_password (64 - 1)\<rparr>;
          st = call (esp_wifi_set_config wc) st;
          st = call esp_wifi_disconnect st;
          st = call esp_wifi_connect st
      in (Inr ESP_OK, st))"

subsection \<open>\<open>wifi_api_scan\<close>\<close>

text \<open>The conditional expression that names \<open>ap_info[i].authmode\<close> in the log.\<close>

definition authmode_name :: "32 word \<Rightarrow> string" where
  "authmode_name a =
     (if a = WIFI_AUTH_OPEN then ''WIFI_AUTH_OPEN''
      else if a = WIFI_AUTH_WEP then ''WIFI_AUTH_WEP''
      else if a = WIFI_AUTH_WPA_PSK then ''WIFI_AUTH_WPA_PSK''
      else if a = WIFI_AUTH_WPA2_PSK then ''WIFI_AUTH_WPA2_PSK''
      else if a = WIFI_AUTH_WPA_WPA2_PSK then ''WIFI_AUTH_WPA_WPA2_PSK''
      else ''WIFI_AUTH_UNKNOWN'')"

text \<open>
  Modelled from the spec: \<open>esp_wifi_scan_get_ap_records(&number, ap_info)\<close>, a function
  of the SDK and not of the repository, which the spec describes as returning up to N
  records. It stores the first \<open>number\<close> records found, in order, and sets \<open>number\<close> to
  how many it stored.
\<close>

definition scan_get_ap_records :: "sdk \<Rightarrow> nat \<Rightarrow> nat \<times> wifi_ap_record list" where
  "scan_get_ap_records env number =
     (let found = take number (sdk_ap_records env) in (length found, found))"

definition zero_ap_record :: wifi_ap_record where
  "zero_ap_record = \<lparr>ap_ssid = [], ap_rssi = 0, ap_authmode = 0, ap_primary = 0\<rparr>"

text \<open>The four log lines of one loop iteration.\<close>

definition log_ap_record :: "wifi_ap_record \<Rightarrow> wifi_state \<Rightarrow> wifi_state" where
  "log_ap_record r st =
     (let st = call (ESP_LOGI (''SSID '' @ [TAB, TAB] @ ''%s'') [Str (ap_ssid r)]) st;
          st = call (ESP_LOGI (''RSSI '' @ [TAB, TAB] @ ''%d'') [Num (ap_rssi r)]) st;
          st = call (ESP_LOGI (''Authmode '' @ [TAB] @ ''%s'')
                       [Str (authmode_name (ap_authmode r))]) st
      in call (ESP_LOGI (''Channel '' @ [TAB, TAB] @ ''%d'') [Num (int (ap_primary r))]) st)"

text \<open>\<open>for (int i = ...; i < number; i++)\<close> over the array \<open>ap_info\<close>.\<close>

function scan_loop :: "nat \<Rightarrow> nat \<Rightarrow> wifi_ap_record list \<Rightarrow> wifi_state \<Rightarrow> wifi_state" where
  "scan_loop i number ap_info st =
     (if i < number then scan_loop (i + 1) number ap_info (log_ap_record (ap_info ! i) st)
      else st)"
  by pat_completeness auto
termination
  by (relation "measure (\<lambda>(i, number, ap_info, st). number - i)") auto

declare scan_loop.simps [simp del]

definition wifi_api_scan :: "sdk \<Rightarrow> wifi_state \<Rightarrow> unit result" where
  "wifi_api_scan env st0 =
     (let st = call (ESP_LOGI ''Starting Wi-Fi scan...'' []) st0;
          number = 10;
          ap_info = replicate 10 zero_ap_record
      in
      ESP_ERROR_CHECK env esp_wifi_scan_start
      (\<lambda>st.
         let st = call (ESP_LOGI ''Max AP number ap_info can hold = %u'' [Num (int number)]) st
         in
         ESP_ERROR_CHECK env esp_wifi_scan_get_ap_num
         (\<lambda>st.
            let ap_count = sdk_ap_num env in
            ESP_ERROR_CHECK env (esp_wifi_scan_get_ap_records number)
            (\<lambda>st.
               let (number, found) = scan_get_ap_records env number;
                   ap_info = found @ drop (length found) ap_info;
                   st = call (ESP_LOGI
                     ''Total APs scanned = %u, actual AP number ap_info holds = %u''
                     [Num (int ap_count), Num (int number)]) st
               in (Inr (), scan_loop 0 number ap_info st)) st) st) st)"

subsection \<open>States the module can be in\<close>

text \<open>
  From the initialisers, any sequence of handler invocations and API calls, whatever the
  collaborators answer.
\<close>

inductive reachable :: "wifi_state \<Rightarrow> bool" where
  start: "reachable initial_state"
| handled: "reachable st \<Longrightarrow> reachable (wifi_api_event_handler ev st)"
| configured: "reachable st \<Longrightarrow> reachable (snd (wifi_api_configure env a b evs st))"
| disconnected: "reachable st \<Longrightarrow> reachable (snd (wifi_api_disconnect env st))"
| altered: "reachable st \<Longrightarrow> reachable (snd (wifi_api_alter_sta env a b st))"
| scanned: "reachable st \<Longrightarrow> reachable (snd (wifi_api_scan env st))"

text \<open>The \<open>Authmode\<close> lines of a trace: the name each of them logs.\<close>

fun authmode_logs :: "sdk_call list \<Rightarrow> string list" where
  "authmode_logs [] = []"
| "authmode_logs (ESP_LOGI fmt [Str s] # cs) =
     (if fmt = ''Authmode '' @ [TAB] @ ''%s'' then s # authmode_logs cs else authmode_logs cs)"
| "authmode_logs (c # cs) = authmode_logs cs"

subsection \<open>Concrete inputs\<close>

definition disconnected_event :: event where
  "disconnected_event =
     \<lparr>ev_base = WIFI_EVENT, ev_id = WIFI_EVENT_STA_DISCONNECTED, ev_data = 0\<rparr>"

definition got_ip_event :: event where
  "got_ip_event = \<lparr>ev_base = IP_EVENT, ev_id = IP_EVENT_STA_GOT_IP, ev_data = 0x0A01A8C0\<rparr>"

text \<open>Collaborators that answer \<open>ESP_OK\<close> to everything and hand out fresh pointers.\<close>

definition sdk_all_ok :: sdk where
  "sdk_all_ok =
     \<lparr>sdk_err = (\<lambda>c. ESP_OK), sdk_semaphore = Some 1, sdk_netif = Some 2,
      sdk_instance = (\<lambda>b. case b of WIFI_EVENT \<Rightarrow> Some 3 | IP_EVENT \<Rightarrow> Some 4),
      sdk_config = \<lparr>ssid = replicate 32 NUL, password = replicate 64 NUL,
                     threshold_authmode = WIFI_AUTH_WPA2_PSK\<rparr>,
      sdk_ap_num = 0, sdk_ap_records = []\<rparr>"

text \<open>Collaborators that answer \<open>ESP_FAIL\<close> to everything.\<close>

definition sdk_all_fail :: sdk where
  "sdk_all_fail = sdk_all_ok\<lparr>sdk_err := (\<lambda>c. ESP_FAIL)\<rparr>"

text \<open>A scan that found twelve access points, with the auth-mode codes listed.\<close>

definition sdk_twelve_aps :: sdk where
  "sdk_twelve_aps =
     sdk_all_ok\<lparr>sdk_ap_num := 12,
       sdk_ap_records :=
         map (\<lambda>a. \<lparr>ap_ssid = ''ap'', ap_rssi = - 40, ap_authmode = a, ap_primary = 6\<rparr>)
           [0, 1, 2, 3, 4, 99, 5, 6, 7, 8, 9, 0]\<rparr>"

text \<open>A caller blocked on semaphore 1, with the retry counter at \<open>r\<close>.\<close>

definition waiting_state :: "32 word \<Rightarrow> wifi_state" where
  "waiting_state r =
     initial_state\<lparr>s_ip_semaphore := Some 1, s_retry_num := r,
       semaphores := (\<lambda>h. if h = 1 then Some False else None)\<rparr>"

section \<open>Properties\<close>

subsection \<open>The retry counter and the handler\<close>

lemma ucast_MAX_RETRY: "(ucast MAX_RETRY :: 32 word) = 10"
  by (simp add: MAX_RETRY_def)

lemma uint_MAX_RETRY: "uint MAX_RETRY = 10"
  by (simp add: MAX_RETRY_def)

lemma sint_succ:
  fixes r :: "32 word"
  assumes "sint r < 10"
  shows "sint (r + 1) = sint r + 1"
proof -
  have ge: "- (2 ^ 31) \<le> sint r" using sint_ge [of r] by simp
  have "sint (r + 1) = signed_take_bit 31 (sint r + 1)"
    by (simp add: sint_word_ariths)
  also have "\<dots> = sint r + 1"
    using assms ge by (intro signed_take_bit_int_eq_self) simp_all
  finally show ?thesis .
qed

lemma below_budget: "(r <s ucast MAX_RETRY) = (sint (r :: 32 word) < 10)"
  by (simp add: ucast_MAX_RETRY word_sless_alt)

lemma above_budget: "(ucast MAX_RETRY <s r) = (10 < sint (r :: 32 word))"
  by (simp add: ucast_MAX_RETRY word_sless_alt)

lemma handler_retry:
  assumes "ev_id ev = WIFI_EVENT_STA_DISCONNECTED" and "sint (s_retry_num st) < 10"
  shows "wifi_api_event_handler ev st =
           st\<lparr>s_retry_num := s_retry_num st + 1,
              trace := trace st @ [esp_wifi_connect, ESP_LOGI ''Retry to connect to the AP'' []]\<rparr>"
  using assms by (simp add: wifi_api_event_handler_def below_budget call_def)

lemma handler_exhausted:
  assumes "ev_id ev = WIFI_EVENT_STA_DISCONNECTED" and "\<not> sint (s_retry_num st) < 10"
  shows "wifi_api_event_handler ev st =
           call (ESP_LOGI ''Connect to the AP fail'' []) (sem_give (s_ip_semaphore st) st)"
  using assms by (simp add: wifi_api_event_handler_def below_budget)

lemma handler_got_ip:
  assumes "ev_id ev = IP_EVENT_STA_GOT_IP"
  shows "wifi_api_event_handler ev st =
           sem_give (s_ip_semaphore st)
             (call (ESP_LOGI ''Got ip:%d.%d.%d.%d'' [Ip4 (ev_data ev)]) (st\<lparr>s_retry_num := 0\<rparr>))"
  using assms by (simp add: wifi_api_event_handler_def call_def)

lemma trace_sem_give: "trace (sem_give p st) = trace st @ [xSemaphoreGive p]"
  by (simp add: sem_give_def call_def Let_def split: option.splits)

lemma retry_sem_give: "s_retry_num (sem_give p st) = s_retry_num st"
  by (simp add: sem_give_def call_def Let_def split: option.splits)

lemma handle_sem_give: "s_ip_semaphore (sem_give p st) = s_ip_semaphore st"
  by (simp add: sem_give_def call_def Let_def split: option.splits)

lemma semaphores_sem_give:
  "semaphores st h \<noteq> None \<Longrightarrow> semaphores (sem_give (Some h) st) h = Some True"
  by (auto simp add: sem_give_def call_def Let_def split: option.splits)

lemma deliver_append: "deliver (xs @ ys) st = deliver ys (deliver xs st)"
  by (induction xs arbitrary: st) simp_all

lemma deliver_retries:
  assumes "ev_id d = WIFI_EVENT_STA_DISCONNECTED"
  shows "sint (s_retry_num st) + int k \<le> 10 \<Longrightarrow>
         deliver (replicate k d) st =
           st\<lparr>s_retry_num := s_retry_num st + of_nat k,
              trace := trace st @
                concat (replicate k [esp_wifi_connect, ESP_LOGI ''Retry to connect to the AP'' []])\<rparr>"
proof (induction k arbitrary: st)
  case 0
  then show ?case by simp
next
  case (Suc k)
  from Suc.prems have lt: "sint (s_retry_num st) < 10" by simp
  let ?st1 = "wifi_api_event_handler d st"
  have st1: "?st1 = st\<lparr>s_retry_num := s_retry_num st + 1,
              trace := trace st @ [esp_wifi_connect, ESP_LOGI ''Retry to connect to the AP'' []]\<rparr>"
    using assms lt by (rule handler_retry)
  have "sint (s_retry_num ?st1) + int k \<le> 10"
    using Suc.prems lt by (simp add: st1 sint_succ)
  from Suc.IH [OF this] show ?case
    by (simp add: st1 add.assoc)
qed

text \<open>
  C4. For every retry count \<open>r\<close> with \<open>0 \<le> r < MAX_RETRY\<close>, a disconnect notification
  handled while \<open>s_retry_num = r\<close> reissues \<open>esp_wifi_connect\<close>, leaves
  \<open>s_retry_num = r + 1\<close> and does not give the semaphore: the handler makes exactly the
  connect call and the retry log line, and no semaphore changes.
\<close>

theorem disconnect_below_budget_retries:
  assumes "ev_id ev = WIFI_EVENT_STA_DISCONNECTED"
      and "0 \<le> sint (s_retry_num st)" and "sint (s_retry_num st) < uint MAX_RETRY"
  shows "trace (wifi_api_event_handler ev st) =
           trace st @ [esp_wifi_connect, ESP_LOGI ''Retry to connect to the AP'' []] \<and>
         sint (s_retry_num (wifi_api_event_handler ev st)) = sint (s_retry_num st) + 1 \<and>
         semaphores (wifi_api_event_handler ev st) = semaphores st"
proof -
  from assms(3) have lt: "sint (s_retry_num st) < 10" by (simp add: uint_MAX_RETRY)
  show ?thesis
    by (simp add: handler_retry [OF assms(1) lt] sint_succ [OF lt])
qed

text \<open>The theorem at \<open>r = 3\<close>, from the initial state.\<close>

theorem disconnect_below_budget_retries_witness:
  "ev_id disconnected_event = WIFI_EVENT_STA_DISCONNECTED \<and>
   sint (s_retry_num (initial_state\<lparr>s_retry_num := 3\<rparr>)) = 3 \<and> uint MAX_RETRY = 10 \<and>
   trace (wifi_api_event_handler disconnected_event (initial_state\<lparr>s_retry_num := 3\<rparr>)) =
     [esp_wifi_connect, ESP_LOGI ''Retry to connect to the AP'' []] \<and>
   sint (s_retry_num (wifi_api_event_handler disconnected_event (initial_state\<lparr>s_retry_num := 3\<rparr>))) = 4"
  using disconnect_below_budget_retries [of disconnected_event "initial_state\<lparr>s_retry_num := 3\<rparr>"]
  by (simp add: disconnected_event_def initial_state_def uint_MAX_RETRY)


text \<open>
  C3. A disconnect notification handled while \<open>s_retry_num = MAX_RETRY\<close> gives the
  semaphore exactly once and takes the failure branch (it logs the failure, reissues no
  connect and leaves the counter at \<open>MAX_RETRY\<close>); the semaphore the variable names
  becomes available when it exists. From a counter of 0, ten disconnect notifications
  are ten retries without any give, and the eleventh is the single give followed by the
  failure log, with the counter at 10.
\<close>

theorem disconnect_at_budget_signals_failure:
  assumes "ev_id ev = WIFI_EVENT_STA_DISCONNECTED"
      and "sint (s_retry_num st) = uint MAX_RETRY"
      and "s_retry_num st0 = 0"
  shows "trace (wifi_api_event_handler ev st) =
           trace st @ [xSemaphoreGive (s_ip_semaphore st), ESP_LOGI ''Connect to the AP fail'' []] \<and>
         s_retry_num (wifi_api_event_handler ev st) = s_retry_num st \<and>
         (\<forall>h. s_ip_semaphore st = Some h \<longrightarrow> semaphores st h \<noteq> None \<longrightarrow>
              semaphores (wifi_api_event_handler ev st) h = Some True) \<and>
         trace (deliver (replicate 10 ev) st0) =
           trace st0 @
           concat (replicate 10 [esp_wifi_connect, ESP_LOGI ''Retry to connect to the AP'' []]) \<and>
         s_retry_num (deliver (replicate 10 ev) st0) = 10 \<and>
         trace (deliver (replicate 10 ev @ [ev]) st0) =
           trace (deliver (replicate 10 ev) st0) @
           [xSemaphoreGive (s_ip_semaphore st0), ESP_LOGI ''Connect to the AP fail'' []] \<and>
         s_retry_num (deliver (replicate 10 ev @ [ev]) st0) = 10"
proof -
  from assms(2) have full: "\<not> sint (s_retry_num st) < 10" by (simp add: uint_MAX_RETRY)
  note one = handler_exhausted [OF assms(1) full]
  have a: "trace (wifi_api_event_handler ev st) =
           trace st @ [xSemaphoreGive (s_ip_semaphore st), ESP_LOGI ''Connect to the AP fail'' []]"
    by (simp add: one call_def trace_sem_give)
  have b: "s_retry_num (wifi_api_event_handler ev st) = s_retry_num st"
    by (simp add: one call_def retry_sem_give)
  have c: "\<forall>h. s_ip_semaphore st = Some h \<longrightarrow> semaphores st h \<noteq> None \<longrightarrow>
              semaphores (wifi_api_event_handler ev st) h = Some True"
    by (simp add: one call_def semaphores_sem_give)
  have "sint (s_retry_num st0) + int 10 \<le> 10" by (simp add: assms(3))
  from deliver_retries [OF assms(1) this]
  have ten: "deliver (replicate 10 ev) st0 =
          st0\<lparr>s_retry_num := 10, trace := trace st0 @
            concat (replicate 10 [esp_wifi_connect, ESP_LOGI ''Retry to connect to the AP'' []])\<rparr>"
    by (simp add: assms(3))
  let ?st10 = "deliver (replicate 10 ev) st0"
  have full10: "\<not> sint (s_retry_num ?st10) < 10" by (simp add: ten)
  have eleven: "deliver (replicate 10 ev @ [ev]) st0 = wifi_api_event_handler ev ?st10"
    by (simp add: deliver_append)
  have d: "trace ?st10 = trace st0 @
           concat (replicate 10 [esp_wifi_connect, ESP_LOGI ''Retry to connect to the AP'' []])"
    by (simp add: ten)
  have e: "s_retry_num ?st10 = 10" by (simp add: ten)
  have h10: "s_ip_semaphore ?st10 = s_ip_semaphore st0" by (simp add: ten)
  have f: "trace (deliver (replicate 10 ev @ [ev]) st0) =
           trace ?st10 @ [xSemaphoreGive (s_ip_semaphore st0), ESP_LOGI ''Connect to the AP fail'' []]"
    by (simp add: eleven handler_exhausted [OF assms(1) full10] call_def trace_sem_give h10)
  have g: "s_retry_num (deliver (replicate 10 ev @ [ev]) st0) = 10"
    by (simp add: eleven handler_exhausted [OF assms(1) full10] call_def retry_sem_give e)
  from a b c d e f g show ?thesis by blast
qed

text \<open>
  The theorem for a caller blocked on semaphore 1 with ten retries used, and for eleven
  notifications from the initial state.
\<close>

theorem disconnect_at_budget_signals_failure_witness:
  "ev_id disconnected_event = WIFI_EVENT_STA_DISCONNECTED \<and>
   sint (s_retry_num (waiting_state 10)) = uint MAX_RETRY \<and>
   s_retry_num initial_state = 0 \<and>
   trace (wifi_api_event_handler disconnected_event (waiting_state 10)) =
     [xSemaphoreGive (Some 1), ESP_LOGI ''Connect to the AP fail'' []] \<and>
   s_retry_num (wifi_api_event_handler disconnected_event (waiting_state 10)) = 10 \<and>
   semaphores (wifi_api_event_handler disconnected_event (waiting_state 10)) 1 = Some True \<and>
   trace (deliver (replicate 10 disconnected_event @ [disconnected_event]) initial_state) =
     trace (deliver (replicate 10 disconnected_event) initial_state) @
     [xSemaphoreGive None, ESP_LOGI ''Connect to the AP fail'' []] \<and>
   s_retry_num (deliver (replicate 10 disconnected_event @ [disconnected_event]) initial_state) = 10"
  using disconnect_at_budget_signals_failure
    [of disconnected_event "waiting_state 10" initial_state]
  by (simp add: disconnected_event_def waiting_state_def initial_state_def uint_MAX_RETRY)

text \<open>
  C5. An address-acquired notification, whatever the counter and the rest of the state,
  sets \<open>s_retry_num\<close> to 0 and gives the semaphore exactly once (after the log line);
  the semaphore the variable names becomes available when it exists. From a counter of
  0, three disconnect notifications are three retries without any give, and the
  address-acquired notification that follows leaves the counter at 0 and makes the
  single give.
\<close>

theorem address_acquired_resets_and_signals:
  assumes "ev_id g = IP_EVENT_STA_GOT_IP"
      and "ev_id d = WIFI_EVENT_STA_DISCONNECTED"
      and "s_retry_num st0 = 0"
  shows "s_retry_num (wifi_api_event_handler g st) = 0 \<and>
         trace (wifi_api_event_handler g st) =
           trace st @ [ESP_LOGI ''Got ip:%d.%d.%d.%d'' [Ip4 (ev_data g)],
                       xSemaphoreGive (s_ip_semaphore st)] \<and>
         (\<forall>h. s_ip_semaphore st = Some h \<longrightarrow> semaphores st h \<noteq> None \<longrightarrow>
              semaphores (wifi_api_event_handler g st) h = Some True) \<and>
         s_retry_num (deliver [d, d, d] st0) = 3 \<and>
         trace (deliver [d, d, d] st0) =
           trace st0 @
           concat (replicate 3 [esp_wifi_connect, ESP_LOGI ''Retry to connect to the AP'' []]) \<and>
         s_retry_num (deliver [d, d, d, g] st0) = 0 \<and>
         trace (deliver [d, d, d, g] st0) =
           trace (deliver [d, d, d] st0) @
           [ESP_LOGI ''Got ip:%d.%d.%d.%d'' [Ip4 (ev_data g)], xSemaphoreGive (s_ip_semaphore st0)]"
proof -
  note one = handler_got_ip [OF assms(1)]
  have a: "s_retry_num (wifi_api_event_handler g st) = 0"
    by (simp add: one retry_sem_give call_def)
  have b: "trace (wifi_api_event_handler g st) =
           trace st @ [ESP_LOGI ''Got ip:%d.%d.%d.%d'' [Ip4 (ev_data g)],
                       xSemaphoreGive (s_ip_semaphore st)]"
    by (simp add: one trace_sem_give call_def)
  have c: "\<forall>h. s_ip_semaphore st = Some h \<longrightarrow> semaphores st h \<noteq> None \<longrightarrow>
              semaphores (wifi_api_event_handler g st) h = Some True"
    by (simp add: one semaphores_sem_give call_def)
  have "sint (s_retry_num st0) + int 3 \<le> 10" by (simp add: assms(3))
  from deliver_retries [OF assms(2) this]
  have three': "deliver (replicate 3 d) st0 =
          st0\<lparr>s_retry_num := 3, trace := trace st0 @
            concat (replicate 3 [esp_wifi_connect, ESP_LOGI ''Retry to connect to the AP'' []])\<rparr>"
    by (simp add: assms(3))
  have rep: "replicate 3 d = [d, d, d]" by (simp add: numeral_3_eq_3)
  have three: "deliver [d, d, d] st0 =
          st0\<lparr>s_retry_num := 3, trace := trace st0 @
            concat (replicate 3 [esp_wifi_connect, ESP_LOGI ''Retry to connect to the AP'' []])\<rparr>"
    using three' by (simp only: rep)
  have four: "deliver [d, d, d, g] st0 = wifi_api_event_handler g (deliver [d, d, d] st0)"
    using deliver_append [of "[d, d, d]" "[g]" st0] by simp
  have e: "s_retry_num (deliver [d, d, d] st0) = 3" unfolding three by simp
  have f: "trace (deliver [d, d, d] st0) = trace st0 @
            concat (replicate 3 [esp_wifi_connect, ESP_LOGI ''Retry to connect to the AP'' []])"
    unfolding three by simp
  have h3: "s_ip_semaphore (deliver [d, d, d] st0) = s_ip_semaphore st0" unfolding three by simp
  have g0: "s_retry_num (deliver [d, d, d, g] st0) = 0"
    by (simp only: four handler_got_ip [OF assms(1)] retry_sem_give) (simp add: call_def)
  have t: "trace (deliver [d, d, d, g] st0) =
           trace (deliver [d, d, d] st0) @
           [ESP_LOGI ''Got ip:%d.%d.%d.%d'' [Ip4 (ev_data g)], xSemaphoreGive (s_ip_semaphore st0)]"
    by (simp only: four handler_got_ip [OF assms(1)] trace_sem_give h3) (simp add: call_def)
  from a b c e f g0 t show ?thesis by blast
qed

text \<open>
  The theorem for a caller blocked on semaphore 1 with seven retries used, and for the
  four notifications from the initial state.
\<close>

theorem address_acquired_resets_and_signals_witness:
  "ev_id got_ip_event = IP_EVENT_STA_GOT_IP \<and>
   ev_id disconnected_event = WIFI_EVENT_STA_DISCONNECTED \<and>
   s_retry_num initial_state = 0 \<and>
   s_retry_num (wifi_api_event_handler got_ip_event (waiting_state 7)) = 0 \<and>
   trace (wifi_api_event_handler got_ip_event (waiting_state 7)) =
     [ESP_LOGI ''Got ip:%d.%d.%d.%d'' [Ip4 0x0A01A8C0], xSemaphoreGive (Some 1)] \<and>
   semaphores (wifi_api_event_handler got_ip_event (waiting_state 7)) 1 = Some True \<and>
   s_retry_num (deliver [disconnected_event, disconnected_event, disconnected_event,
                         got_ip_event] initial_state) = 0 \<and>
   trace (deliver [disconnected_event, disconnected_event, disconnected_event,
                   got_ip_event] initial_state) =
     trace (deliver [disconnected_event, disconnected_event, disconnected_event] initial_state) @
     [ESP_LOGI ''Got ip:%d.%d.%d.%d'' [Ip4 0x0A01A8C0], xSemaphoreGive None]"
  using address_acquired_resets_and_signals
    [of got_ip_event disconnected_event initial_state "waiting_state 7"]
  by (simp add: disconnected_event_def got_ip_event_def waiting_state_def initial_state_def)

subsection \<open>The counter in every reachable state\<close>

lemma handler_bounded:
  assumes "0 \<le> sint (s_retry_num st)" and "sint (s_retry_num st) \<le> 10"
  shows "0 \<le> sint (s_retry_num (wifi_api_event_handler ev st)) \<and>
         sint (s_retry_num (wifi_api_event_handler ev st)) \<le> 10"
proof (cases "ev_id ev")
  case WIFI_EVENT_STA_START
  then show ?thesis using assms by (simp add: wifi_api_event_handler_def call_def)
next
  case WIFI_EVENT_STA_DISCONNECTED
  show ?thesis
  proof (cases "sint (s_retry_num st) < 10")
    case True
    with assms show ?thesis
      by (simp add: handler_retry [OF WIFI_EVENT_STA_DISCONNECTED True] sint_succ)
  next
    case False
    with assms show ?thesis
      by (simp add: handler_exhausted [OF WIFI_EVENT_STA_DISCONNECTED False] call_def retry_sem_give)
  qed
next
  case IP_EVENT_STA_GOT_IP
  then show ?thesis by (simp add: handler_got_ip retry_sem_give call_def)
next
  case (OTHER_EVENT_ID n)
  then show ?thesis using assms by (simp add: wifi_api_event_handler_def)
qed

lemma retry_sem_taken: "s_retry_num (sem_taken p st) = s_retry_num st"
  by (simp add: sem_taken_def split: option.splits)

lemma blocked_on_bounded:
  "0 \<le> sint (s_retry_num st) \<Longrightarrow> sint (s_retry_num st) \<le> 10 \<Longrightarrow>
   0 \<le> sint (s_retry_num (snd (blocked_on p evs st))) \<and>
   sint (s_retry_num (snd (blocked_on p evs st))) \<le> 10"
proof (induction evs arbitrary: st)
  case Nil
  then show ?case by (simp add: retry_sem_taken)
next
  case (Cons ev evs)
  show ?case
  proof (cases "sem_available p st")
    case True
    with Cons.prems show ?thesis by (simp add: retry_sem_taken)
  next
    case False
    from handler_bounded [OF Cons.prems, of ev] Cons.IH [of "wifi_api_event_handler ev st"] False
    show ?thesis by simp
  qed
qed

lemma blocked_on_no_events: "s_retry_num (snd (blocked_on p [] st)) = s_retry_num st"
  by (simp add: retry_sem_taken)

lemma ESP_ERROR_CHECK_cases:
  assumes "\<And>s. s_retry_num s = r \<Longrightarrow> Q (Inl (Abort c), s)"
      and "\<And>s. s_retry_num s = r \<Longrightarrow> Q (k s)"
      and "s_retry_num st = r"
  shows "Q (ESP_ERROR_CHECK env c k st)"
  using assms by (simp add: ESP_ERROR_CHECK_def call_def Let_def)

lemma configure_cases:
  assumes abort: "\<And>c s. s_retry_num s = s_retry_num st \<Longrightarrow> Q (Inl (Abort c), s)"
      and nosem: "\<And>s. s_retry_num s = s_retry_num st \<Longrightarrow> sdk_semaphore env = None \<Longrightarrow>
                   Q (Inr ESP_FAIL, s)"
      and blocked: "\<And>s p. s_retry_num s = s_retry_num st \<Longrightarrow> \<not> fst (blocked_on p evs s) \<Longrightarrow>
                   Q (Inl Blocked, snd (blocked_on p evs s))"
      and fail: "\<And>s p. s_retry_num s = s_retry_num st \<Longrightarrow> fst (blocked_on p evs s) \<Longrightarrow>
                   10 < sint (s_retry_num (snd (blocked_on p evs s))) \<Longrightarrow>
                   Q (Inr ESP_FAIL, snd (blocked_on p evs s))"
      and ok: "\<And>s p. s_retry_num s = s_retry_num st \<Longrightarrow> fst (blocked_on p evs s) \<Longrightarrow>
                   \<not> 10 < sint (s_retry_num (snd (blocked_on p evs s))) \<Longrightarrow>
                   Q (Inr ESP_OK, call esp_register_shutdown_handler (snd (blocked_on p evs s)))"
      and late: "\<And>s p. s_retry_num s = s_retry_num st \<Longrightarrow> fst (blocked_on p evs s) \<Longrightarrow>
                   \<not> 10 < sint (s_retry_num (snd (blocked_on p evs s))) \<Longrightarrow>
                   Q (Inl (Abort esp_register_shutdown_handler),
                      call esp_register_shutdown_handler (snd (blocked_on p evs s)))"
  shows "Q (wifi_api_configure env a b evs st)"
  unfolding wifi_api_configure_def
  apply (rule ESP_ERROR_CHECK_cases [where r = "s_retry_num st" and Q = Q], erule abort)
   prefer 2 apply (rule refl)
  apply (simp add: Let_def sem_create_def call_def case_prod_beta split: option.splits)
  apply (intro conjI impI allI)
   apply (rule nosem; simp)
  apply (rule ESP_ERROR_CHECK_cases [where r = "s_retry_num st" and Q = Q], erule abort)
   prefer 2 apply simp
  apply (rule ESP_ERROR_CHECK_cases [where r = "s_retry_num st" and Q = Q], erule abort)
   prefer 2 apply simp
  apply (rule ESP_ERROR_CHECK_cases [where r = "s_retry_num st" and Q = Q], erule abort)
   prefer 2 apply simp
  apply (rule ESP_ERROR_CHECK_cases [where r = "s_retry_num st" and Q = Q], erule abort)
   prefer 2 apply simp
  apply (rule ESP_ERROR_CHECK_cases [where r = "s_retry_num st" and Q = Q], erule abort)
   prefer 2 apply simp
  apply (rule ESP_ERROR_CHECK_cases [where r = "s_retry_num st" and Q = Q], erule abort)
   prefer 2 apply simp
  apply (rule ESP_ERROR_CHECK_cases [where r = "s_retry_num st" and Q = Q], erule abort)
   prefer 2 apply simp
  apply (rule ESP_ERROR_CHECK_cases [where r = "s_retry_num st" and Q = Q], erule abort)
   prefer 2 apply simp
  apply (rule ESP_ERROR_CHECK_cases [where r = "s_retry_num st" and Q = Q], erule abort)
   prefer 2 apply simp
  apply (rule ESP_ERROR_CHECK_cases [where r = "s_retry_num st" and Q = Q], erule abort)
   prefer 2 apply simp
  apply (simp add: above_budget ESP_ERROR_CHECK_def Let_def)
  apply (intro conjI impI)
       apply (rule blocked fail ok late; simp)+
  done


lemma configure_unblocked_counter:
  "s_retry_num (snd (wifi_api_configure env a b [] st)) = s_retry_num st"
  by (rule configure_cases) (simp_all add: call_def retry_sem_taken)

lemma configure_bounded:
  assumes "0 \<le> sint (s_retry_num st)" and "sint (s_retry_num st) \<le> 10"
  shows "0 \<le> sint (s_retry_num (snd (wifi_api_configure env a b evs st))) \<and>
         sint (s_retry_num (snd (wifi_api_configure env a b evs st))) \<le> 10"
  using assms
  by (rule_tac configure_cases) (simp_all add: call_def blocked_on_bounded)

lemma configure_never_fails_late:
  assumes "0 \<le> sint (s_retry_num st)" and "sint (s_retry_num st) \<le> 10"
      and "sdk_semaphore env \<noteq> None"
  shows "fst (wifi_api_configure env a b evs st) \<noteq> Inr ESP_FAIL"
proof (rule configure_cases)
  fix s p
  assume "s_retry_num s = s_retry_num st"
    and "10 < sint (s_retry_num (snd (blocked_on p evs s)))"
  with assms(1,2) blocked_on_bounded [of s p evs]
  show "fst (Inr ESP_FAIL :: halt + esp_err_t, snd (blocked_on p evs s)) \<noteq> Inr ESP_FAIL"
    by simp
qed (use assms(3) in simp_all)


lemma retry_log_ap_record: "s_retry_num (log_ap_record r st) = s_retry_num st"
  by (simp add: log_ap_record_def call_def Let_def)

lemma retry_scan_loop: "s_retry_num (scan_loop i n ap st) = s_retry_num st"
  by (induction i n ap st rule: scan_loop.induct)
     (subst scan_loop.simps, simp add: retry_log_ap_record)

lemma retry_scan: "s_retry_num (snd (wifi_api_scan env st)) = s_retry_num st"
  by (simp add: wifi_api_scan_def ESP_ERROR_CHECK_def call_def Let_def case_prod_beta
        retry_scan_loop)

lemma retry_alter: "s_retry_num (snd (wifi_api_alter_sta env a b st)) = s_retry_num st"
  by (simp add: wifi_api_alter_sta_def call_def Let_def)

lemma retry_sem_delete: "s_retry_num (sem_delete p st) = s_retry_num st"
  by (simp add: sem_delete_def call_def Let_def split: option.splits)

lemma retry_disconnect: "s_retry_num (snd (wifi_api_disconnect env st)) = s_retry_num st"
  by (simp add: wifi_api_disconnect_def ESP_ERROR_CHECK_def call_def Let_def retry_sem_delete)

lemma reachable_bounded:
  "reachable st \<Longrightarrow> 0 \<le> sint (s_retry_num st) \<and> sint (s_retry_num st) \<le> 10"
proof (induction rule: reachable.induct)
  case start
  show ?case by (simp add: initial_state_def)
next
  case (handled st ev)
  then show ?case using handler_bounded [of st ev] by simp
next
  case (configured st env a b evs)
  then show ?case using configure_bounded [of st env a b evs] by simp
next
  case (disconnected st env)
  then show ?case by (simp add: retry_disconnect)
next
  case (altered st env a b)
  then show ?case by (simp add: retry_alter)
next
  case (scanned st env)
  then show ?case by (simp add: retry_scan)
qed

lemma handler_counter_steps:
  "s_retry_num (wifi_api_event_handler ev st) = s_retry_num st + 1 \<and>
     sint (s_retry_num st) < uint MAX_RETRY \<or>
   s_retry_num (wifi_api_event_handler ev st) = s_retry_num st \<or>
   s_retry_num (wifi_api_event_handler ev st) = 0"
  by (cases "ev_id ev")
     (simp_all add: wifi_api_event_handler_def call_def retry_sem_give below_budget
        uint_MAX_RETRY Let_def)

lemma reachable_deliver: "reachable st \<Longrightarrow> reachable (deliver evs st)"
  by (induction evs arbitrary: st) (simp_all add: reachable.handled)

text \<open>
  C10. In every reachable state \<open>0 \<le> s_retry_num \<le> MAX_RETRY\<close>, and so after one more
  handler invocation: the handler adds one only when the counter is below \<open>MAX_RETRY\<close>,
  and otherwise leaves it or sets it to 0. Hence \<open>wifi_api_configure\<close> never returns
  \<open>ESP_FAIL\<close> through \<open>s_retry_num > MAX_RETRY\<close>: once the semaphore is created it
  returns \<open>ESP_FAIL\<close> on no input.
\<close>

theorem retry_counter_bounded:
  assumes "reachable st"
  shows "0 \<le> sint (s_retry_num st) \<and> sint (s_retry_num st) \<le> uint MAX_RETRY \<and>
         0 \<le> sint (s_retry_num (wifi_api_event_handler ev st)) \<and>
         sint (s_retry_num (wifi_api_event_handler ev st)) \<le> uint MAX_RETRY \<and>
         (s_retry_num (wifi_api_event_handler ev st) = s_retry_num st + 1 \<and>
            sint (s_retry_num st) < uint MAX_RETRY \<or>
          s_retry_num (wifi_api_event_handler ev st) = s_retry_num st \<or>
          s_retry_num (wifi_api_event_handler ev st) = 0) \<and>
         (sdk_semaphore env \<noteq> None \<longrightarrow>
            fst (wifi_api_configure env a b evs st) \<noteq> Inr ESP_FAIL)"
proof -
  from assms have b: "0 \<le> sint (s_retry_num st)" "sint (s_retry_num st) \<le> 10"
    using reachable_bounded by simp_all
  from handler_bounded [OF b, of ev] configure_never_fails_late [OF b, of env a b evs]
    handler_counter_steps [of ev st] b
  show ?thesis by (simp add: uint_MAX_RETRY)
qed

text \<open>The theorem for the state eleven disconnect notifications lead to.\<close>

theorem retry_counter_bounded_witness:
  "reachable (deliver (replicate 11 disconnected_event) initial_state) \<and>
   0 \<le> sint (s_retry_num (deliver (replicate 11 disconnected_event) initial_state)) \<and>
   sint (s_retry_num (deliver (replicate 11 disconnected_event) initial_state)) \<le> uint MAX_RETRY \<and>
   sint (s_retry_num (wifi_api_event_handler disconnected_event
          (deliver (replicate 11 disconnected_event) initial_state))) \<le> uint MAX_RETRY \<and>
   sdk_semaphore sdk_all_ok \<noteq> None \<and>
   fst (wifi_api_configure sdk_all_ok ''home'' ''secret'' [disconnected_event]
          (deliver (replicate 11 disconnected_event) initial_state)) \<noteq> Inr ESP_FAIL"
proof -
  have r: "reachable (deliver (replicate 11 disconnected_event) initial_state)"
    by (rule reachable_deliver [OF reachable.start])
  have s: "sdk_semaphore sdk_all_ok \<noteq> None" by (simp add: sdk_all_ok_def)
  from retry_counter_bounded [OF r, of disconnected_event sdk_all_ok "''home''" "''secret''"
      "[disconnected_event]"] r s
  show ?thesis by blast
qed


subsection \<open>\<open>wifi_api_configure\<close> and the retry budget\<close>

lemma ESP_ERROR_CHECK_ok:
  "sdk_err env c = ESP_OK \<Longrightarrow> ESP_ERROR_CHECK env c k st = k (call c st)"
  by (simp add: ESP_ERROR_CHECK_def)

lemma sdk_all_ok_simps:
  "sdk_err sdk_all_ok c = ESP_OK" "sdk_semaphore sdk_all_ok = Some 1"
  "sdk_netif sdk_all_ok = Some 2" "sdk_instance sdk_all_ok WIFI_EVENT = Some 3"
  "sdk_instance sdk_all_ok IP_EVENT = Some 4"
  by (simp_all add: sdk_all_ok_def)

lemma configure_all_ok_blocks:
  "fst (wifi_api_configure sdk_all_ok a b [] st) = Inl Blocked"
  by (simp add: wifi_api_configure_def ESP_ERROR_CHECK_ok sdk_all_ok_simps Let_def
        sem_create_def call_def sem_available_def)


lemma failed_configure_result:
  "fst (wifi_api_configure sdk_all_ok ''home'' ''secret''
          (replicate 11 disconnected_event) initial_state) = Inr ESP_OK"
  by code_simp

lemma failed_configure_counter:
  "s_retry_num (snd (wifi_api_configure sdk_all_ok ''home'' ''secret''
          (replicate 11 disconnected_event) initial_state)) = 10"
  by code_simp

lemma failed_configure_trace:
  "drop 17 (trace (snd (wifi_api_configure sdk_all_ok ''home'' ''secret''
          (replicate 11 disconnected_event) initial_state))) =
     concat (replicate 10 [esp_wifi_connect, ESP_LOGI ''Retry to connect to the AP'' []]) @
     [xSemaphoreGive (Some 1), ESP_LOGI ''Connect to the AP fail'' [],
      esp_register_shutdown_handler]"
  by code_simp

text \<open>
  C1. The claim is that a caller woken because the retry budget ran out gets a failure
  result. With every collaborator answering \<open>ESP_OK\<close> and eleven disconnect
  notifications delivered while the caller is blocked (no address is ever acquired), the
  handler takes its failure branch on the eleventh, with \<open>s_retry_num = MAX_RETRY\<close>; the
  test \<open>s_retry_num > MAX_RETRY\<close> is then false, the shutdown handler is registered and
  \<open>wifi_api_configure\<close> returns \<open>ESP_OK\<close>.
\<close>

theorem configure_reports_success_after_exhausted_retries:
  "fst (wifi_api_configure sdk_all_ok ''home'' ''secret''
          (replicate 11 disconnected_event) initial_state) = Inr ESP_OK \<and>
   s_retry_num (snd (wifi_api_configure sdk_all_ok ''home'' ''secret''
          (replicate 11 disconnected_event) initial_state)) = 10 \<and>
   drop 17 (trace (snd (wifi_api_configure sdk_all_ok ''home'' ''secret''
          (replicate 11 disconnected_event) initial_state))) =
     concat (replicate 10 [esp_wifi_connect, ESP_LOGI ''Retry to connect to the AP'' []]) @
     [xSemaphoreGive (Some 1), ESP_LOGI ''Connect to the AP fail'' [],
      esp_register_shutdown_handler]"
  using failed_configure_result failed_configure_counter failed_configure_trace
  by (intro conjI)

text \<open>
  C2, as stated, fails: a second \<open>wifi_api_configure\<close> after the one above blocks in
  \<open>xSemaphoreTake\<close> with the counter still at 10.
\<close>

theorem configure_resets_counter_counterexample:
  "fst (wifi_api_configure sdk_all_ok ''home'' ''secret'' []
          (snd (wifi_api_configure sdk_all_ok ''home'' ''secret''
                  (replicate 11 disconnected_event) initial_state))) = Inl Blocked \<and>
   s_retry_num (snd (wifi_api_configure sdk_all_ok ''home'' ''secret'' []
          (snd (wifi_api_configure sdk_all_ok ''home'' ''secret''
                  (replicate 11 disconnected_event) initial_state)))) = 10 \<and>
   s_retry_num (snd (wifi_api_configure sdk_all_ok ''home'' ''secret'' []
          (snd (wifi_api_configure sdk_all_ok ''home'' ''secret''
                  (replicate 11 disconnected_event) initial_state)))) \<noteq> 0"
  by (simp add: configure_all_ok_blocks configure_unblocked_counter failed_configure_counter)

text \<open>
  C2, amended. \<open>wifi_api_configure\<close> never writes \<open>s_retry_num\<close>: whatever the
  collaborators answer, as long as no event has been handled the counter has the value it
  had when the function was called, in particular when the caller blocks in
  \<open>xSemaphoreTake\<close>. It is 0 there only if it was 0 at the call, as it is from the
  initialiser and after an address acquisition.
\<close>

theorem configure_leaves_counter:
  "s_retry_num (snd (wifi_api_configure env ssid_arg password_arg [] st)) = s_retry_num st"
  by (rule configure_unblocked_counter)

subsection \<open>\<open>wifi_api_disconnect\<close> and \<open>wifi_api_alter_sta\<close>\<close>

lemma disconnect_all_ok:
  assumes "s_ip_semaphore st = Some h"
  shows "wifi_api_disconnect sdk_all_ok st =
    (Inr ESP_OK,
     st\<lparr>semaphores := (semaphores st)(h := None),
        trace := trace st @
          [ESP_LOGI ''Disconnecting Wi-Fi...'' [],
           esp_event_handler_instance_unregister WIFI_EVENT ESP_EVENT_ANY_ID (instance_any_id st),
           esp_event_handler_instance_unregister IP_EVENT (EVENT IP_EVENT_STA_GOT_IP)
             (instance_got_ip st),
           vSemaphoreDelete (Some h), esp_wifi_disconnect]\<rparr>)"
  using assms
  by (simp add: wifi_api_disconnect_def ESP_ERROR_CHECK_ok sdk_all_ok_simps Let_def
        sem_delete_def call_def)

lemma connected_configure_fields:
  "fst (wifi_api_configure sdk_all_ok ''home'' ''secret'' [got_ip_event] initial_state) = Inr ESP_OK"
  "s_ip_semaphore (snd (wifi_api_configure sdk_all_ok ''home'' ''secret'' [got_ip_event]
     initial_state)) = Some 1"
  "instance_any_id (snd (wifi_api_configure sdk_all_ok ''home'' ''secret'' [got_ip_event]
     initial_state)) = Some 3"
  "instance_got_ip (snd (wifi_api_configure sdk_all_ok ''home'' ''secret'' [got_ip_event]
     initial_state)) = Some 4"
  by code_simp+

text \<open>
  C6. The claim is that a second \<open>wifi_api_disconnect\<close>, or one without registrations
  and semaphore, does nothing harmful. After a successful \<open>wifi_api_configure\<close>, the
  first \<open>wifi_api_disconnect\<close> deletes semaphore 1 and returns \<open>ESP_OK\<close>; the
  variables keep their values, so the second call unregisters the same two instances
  again and calls \<open>vSemaphoreDelete\<close> on the semaphore that no longer exists. From the
  initial state the unregistration is called with \<open>NULL\<close>, and when the event loop
  rejects it \<open>ESP_ERROR_CHECK\<close> aborts.
\<close>

theorem disconnect_twice_deletes_twice:
  "fst (wifi_api_configure sdk_all_ok ''home'' ''secret'' [got_ip_event] initial_state)
     = Inr ESP_OK \<and>
   fst (wifi_api_disconnect sdk_all_ok
          (snd (wifi_api_configure sdk_all_ok ''home'' ''secret'' [got_ip_event] initial_state)))
     = Inr ESP_OK \<and>
   semaphores (snd (wifi_api_disconnect sdk_all_ok
          (snd (wifi_api_configure sdk_all_ok ''home'' ''secret'' [got_ip_event] initial_state)))) 1
     = None \<and>
   trace (snd (wifi_api_disconnect sdk_all_ok (snd (wifi_api_disconnect sdk_all_ok
          (snd (wifi_api_configure sdk_all_ok ''home'' ''secret'' [got_ip_event] initial_state))))))
     = trace (snd (wifi_api_disconnect sdk_all_ok
          (snd (wifi_api_configure sdk_all_ok ''home'' ''secret'' [got_ip_event] initial_state)))) @
       [ESP_LOGI ''Disconnecting Wi-Fi...'' [],
        esp_event_handler_instance_unregister WIFI_EVENT ESP_EVENT_ANY_ID (Some 3),
        esp_event_handler_instance_unregister IP_EVENT (EVENT IP_EVENT_STA_GOT_IP) (Some 4),
        vSemaphoreDelete (Some 1), esp_wifi_disconnect] \<and>
   fst (wifi_api_disconnect sdk_all_fail initial_state) =
     Inl (Abort (esp_event_handler_instance_unregister WIFI_EVENT ESP_EVENT_ANY_ID None))"
proof -
  let ?c = "snd (wifi_api_configure sdk_all_ok ''home'' ''secret'' [got_ip_event] initial_state)"
  note f = connected_configure_fields
  note d1 = disconnect_all_ok [OF f(2)]
  have s1: "s_ip_semaphore (snd (wifi_api_disconnect sdk_all_ok ?c)) = Some 1"
    by (simp add: d1 f)
  note d2 = disconnect_all_ok [OF s1]
  have a: "fst (wifi_api_disconnect sdk_all_ok ?c) = Inr ESP_OK" by (simp add: d1)
  have b: "semaphores (snd (wifi_api_disconnect sdk_all_ok ?c)) 1 = None" by (simp add: d1)
  have c: "trace (snd (wifi_api_disconnect sdk_all_ok (snd (wifi_api_disconnect sdk_all_ok ?c))))
     = trace (snd (wifi_api_disconnect sdk_all_ok ?c)) @
       [ESP_LOGI ''Disconnecting Wi-Fi...'' [],
        esp_event_handler_instance_unregister WIFI_EVENT ESP_EVENT_ANY_ID (Some 3),
        esp_event_handler_instance_unregister IP_EVENT (EVENT IP_EVENT_STA_GOT_IP) (Some 4),
        vSemaphoreDelete (Some 1), esp_wifi_disconnect]"
    unfolding d2 by (simp add: d1 f)
  have d: "fst (wifi_api_disconnect sdk_all_fail initial_state) =
     Inl (Abort (esp_event_handler_instance_unregister WIFI_EVENT ESP_EVENT_ANY_ID None))"
    by (simp add: wifi_api_disconnect_def ESP_ERROR_CHECK_def sdk_all_fail_def sdk_all_ok_def
          initial_state_def call_def Let_def)
  from f(1) a b c d show ?thesis by (intro conjI)
qed

text \<open>
  C7. The claim is that \<open>wifi_api_alter_sta\<close> returns the first collaborator error.
  It returns \<open>ESP_OK\<close> whatever the collaborators answer, also when every call fails.
\<close>

theorem alter_sta_ignores_errors:
  "fst (wifi_api_alter_sta env new_ssid new_password st) = Inr ESP_OK"
  by (simp add: wifi_api_alter_sta_def Let_def)

text \<open>
  C8. For every input \<open>wifi_api_alter_sta\<close> returns without blocking, and changes
  nothing of the state but the trace, to which it adds its log line and exactly
  \<open>esp_wifi_get_config\<close>, \<open>esp_wifi_set_config\<close> with the SSID and password fields
  of the configuration read overwritten, \<open>esp_wifi_disconnect\<close> and
  \<open>esp_wifi_connect\<close>, in this order. In particular \<open>s_retry_num\<close> and the semaphores
  are unchanged and \<open>xSemaphoreTake\<close> is not called.
\<close>

theorem alter_sta_effects:
  "wifi_api_alter_sta env new_ssid new_password st =
     (Inr ESP_OK,
      st\<lparr>trace := trace st @
        [ESP_LOGI ''Updating STA configuration...'' [],
         esp_wifi_get_config,
         esp_wifi_set_config
           ((sdk_config env)\<lparr>ssid := strncpy (ssid (sdk_config env)) new_ssid 31,
                             password := strncpy (password (sdk_config env)) new_password 63\<rparr>),
         esp_wifi_disconnect,
         esp_wifi_connect]\<rparr>) \<and>
   s_retry_num (snd (wifi_api_alter_sta env new_ssid new_password st)) = s_retry_num st \<and>
   semaphores (snd (wifi_api_alter_sta env new_ssid new_password st)) = semaphores st \<and>
   (\<forall>p. xSemaphoreTake p \<notin>
      set (drop (length (trace st))
             (trace (snd (wifi_api_alter_sta env new_ssid new_password st)))))"
  by (simp add: wifi_api_alter_sta_def call_def Let_def)

subsection \<open>\<open>wifi_api_scan\<close>\<close>

lemma authmode_logs_append:
  "authmode_logs (xs @ ys) = authmode_logs xs @ authmode_logs ys"
  by (induction xs rule: authmode_logs.induct) simp_all

lemma authmode_logs_call:
  "authmode_logs (trace (call c st)) = authmode_logs (trace st) @ authmode_logs [c]"
  by (simp add: call_def authmode_logs_append)

lemma authmode_logs_log_ap_record:
  "authmode_logs (trace (log_ap_record r st)) =
     authmode_logs (trace st) @ [authmode_name (ap_authmode r)]"
  by (simp add: log_ap_record_def Let_def authmode_logs_call)

lemma authmode_logs_scan_loop:
  "n \<le> length ap \<Longrightarrow>
   authmode_logs (trace (scan_loop i n ap st)) =
     authmode_logs (trace st) @
     map (\<lambda>r. authmode_name (ap_authmode r)) (take (n - i) (drop i ap))"
proof (induction i n ap st rule: scan_loop.induct)
  case (1 i number ap_info st)
  show ?case
  proof (cases "i < number")
    case True
    then have i: "i < length ap_info" using "1.prems" by simp
    have split: "take (number - i) (drop i ap_info) =
                 ap_info ! i # take (number - (i + 1)) (drop (i + 1) ap_info)"
    proof -
      have "drop i ap_info = ap_info ! i # drop (Suc i) ap_info"
        using i by (simp add: Cons_nth_drop_Suc)
      moreover have "number - i = Suc (number - (i + 1))" using True by simp
      ultimately show ?thesis by simp
    qed
    from True "1.IH" [OF True "1.prems"] show ?thesis
      by (subst scan_loop.simps) (simp add: authmode_logs_log_ap_record split)
  next
    case False
    then show ?thesis by (subst scan_loop.simps) simp
  qed
qed

lemma authmode_name_cases:
  "authmode_name a \<in> {''WIFI_AUTH_OPEN'', ''WIFI_AUTH_WEP'', ''WIFI_AUTH_WPA_PSK'',
      ''WIFI_AUTH_WPA2_PSK'', ''WIFI_AUTH_WPA_WPA2_PSK'', ''WIFI_AUTH_UNKNOWN''}"
  by (simp add: authmode_name_def)

lemma take_min_length: "take (min (length xs) n) xs = take n xs"
  by (simp add: min_def)

lemma scan_authmode_logs:
  "authmode_logs (trace (snd (wifi_api_scan env st))) =
     authmode_logs (trace st) @
     (if fst (wifi_api_scan env st) = Inr ()
      then map (\<lambda>r. authmode_name (ap_authmode r)) (take 10 (sdk_ap_records env)) else [])"
  by (simp add: wifi_api_scan_def ESP_ERROR_CHECK_def Let_def scan_get_ap_records_def
        authmode_logs_scan_loop authmode_logs_call take_min_length)

lemma scan_twelve_aps_returns: "fst (wifi_api_scan sdk_twelve_aps initial_state) = Inr ()"
  by (simp add: wifi_api_scan_def ESP_ERROR_CHECK_ok sdk_twelve_aps_def sdk_all_ok_def
        Let_def case_prod_beta)

text \<open>
  C9. The auth-mode codes 0, 1, 2, 3 and 4 are named as the five recognised modes, every
  other code as unknown, so every code gets one of six names. A scan logs the name of at
  most ten records: none when a check aborts it, and otherwise those of the first ten
  records found, in order.
\<close>

theorem scan_classifies_authmode:
  "authmode_name 0 = ''WIFI_AUTH_OPEN'' \<and>
   authmode_name 1 = ''WIFI_AUTH_WEP'' \<and>
   authmode_name 2 = ''WIFI_AUTH_WPA_PSK'' \<and>
   authmode_name 3 = ''WIFI_AUTH_WPA2_PSK'' \<and>
   authmode_name 4 = ''WIFI_AUTH_WPA_WPA2_PSK'' \<and>
   (a \<notin> {0, 1, 2, 3, 4} \<longrightarrow> authmode_name a = ''WIFI_AUTH_UNKNOWN'') \<and>
   authmode_name a \<in> {''WIFI_AUTH_OPEN'', ''WIFI_AUTH_WEP'', ''WIFI_AUTH_WPA_PSK'',
      ''WIFI_AUTH_WPA2_PSK'', ''WIFI_AUTH_WPA_WPA2_PSK'', ''WIFI_AUTH_UNKNOWN''} \<and>
   length (authmode_logs (trace (snd (wifi_api_scan env st)))) \<le>
     length (authmode_logs (trace st)) + 10 \<and>
   (fst (wifi_api_scan env st) = Inr () \<longrightarrow>
      authmode_logs (trace (snd (wifi_api_scan env st))) =
        authmode_logs (trace st) @
        map (\<lambda>r. authmode_name (ap_authmode r)) (take 10 (sdk_ap_records env)))"
proof -
  have codes: "authmode_name 0 = ''WIFI_AUTH_OPEN''" "authmode_name 1 = ''WIFI_AUTH_WEP''"
    "authmode_name 2 = ''WIFI_AUTH_WPA_PSK''" "authmode_name 3 = ''WIFI_AUTH_WPA2_PSK''"
    "authmode_name 4 = ''WIFI_AUTH_WPA_WPA2_PSK''"
    by (simp_all add: authmode_name_def WIFI_AUTH_OPEN_def WIFI_AUTH_WEP_def
          WIFI_AUTH_WPA_PSK_def WIFI_AUTH_WPA2_PSK_def WIFI_AUTH_WPA_WPA2_PSK_def)
  have other: "a \<notin> {0, 1, 2, 3, 4} \<longrightarrow> authmode_name a = ''WIFI_AUTH_UNKNOWN''"
    by (simp add: authmode_name_def WIFI_AUTH_OPEN_def WIFI_AUTH_WEP_def
          WIFI_AUTH_WPA_PSK_def WIFI_AUTH_WPA2_PSK_def WIFI_AUTH_WPA_WPA2_PSK_def)
  have len: "length (authmode_logs (trace (snd (wifi_api_scan env st)))) \<le>
     length (authmode_logs (trace st)) + 10"
    by (simp add: scan_authmode_logs)
  have logs: "fst (wifi_api_scan env st) = Inr () \<longrightarrow>
      authmode_logs (trace (snd (wifi_api_scan env st))) =
        authmode_logs (trace st) @
        map (\<lambda>r. authmode_name (ap_authmode r)) (take 10 (sdk_ap_records env))"
    by (simp add: scan_authmode_logs)
  from codes other authmode_name_cases [of a] len logs show ?thesis by (intro conjI)
qed


text \<open>
  The theorem for code 99 and for a scan that found twelve access points: ten are
  logged, with codes 0, 1, 2, 3, 4, 99, 5, 6, 7 and 8.
\<close>

theorem scan_classifies_authmode_witness:
  "(99 :: 32 word) \<notin> {0, 1, 2, 3, 4} \<and>
   authmode_name 99 = ''WIFI_AUTH_UNKNOWN'' \<and>
   fst (wifi_api_scan sdk_twelve_aps initial_state) = Inr () \<and>
   authmode_logs (trace (snd (wifi_api_scan sdk_twelve_aps initial_state))) =
     [''WIFI_AUTH_OPEN'', ''WIFI_AUTH_WEP'', ''WIFI_AUTH_WPA_PSK'', ''WIFI_AUTH_WPA2_PSK'',
      ''WIFI_AUTH_WPA_WPA2_PSK'', ''WIFI_AUTH_UNKNOWN'', ''WIFI_AUTH_UNKNOWN'',
      ''WIFI_AUTH_UNKNOWN'', ''WIFI_AUTH_UNKNOWN'', ''WIFI_AUTH_UNKNOWN'']"
proof -
  have n: "(99 :: 32 word) \<notin> {0, 1, 2, 3, 4}" by simp
  note t = scan_classifies_authmode [of 99 sdk_twelve_aps initial_state]
  from t n have u: "authmode_name 99 = ''WIFI_AUTH_UNKNOWN''" by blast
  from t scan_twelve_aps_returns
  have "authmode_logs (trace (snd (wifi_api_scan sdk_twelve_aps initial_state))) =
        authmode_logs (trace initial_state) @
        map (\<lambda>r. authmode_name (ap_authmode r)) (take 10 (sdk_ap_records sdk_twelve_aps))"
    by blast
  also have "\<dots> = [''WIFI_AUTH_OPEN'', ''WIFI_AUTH_WEP'', ''WIFI_AUTH_WPA_PSK'',
      ''WIFI_AUTH_WPA2_PSK'', ''WIFI_AUTH_WPA_WPA2_PSK'', ''WIFI_AUTH_UNKNOWN'',
      ''WIFI_AUTH_UNKNOWN'', ''WIFI_AUTH_UNKNOWN'', ''WIFI_AUTH_UNKNOWN'', ''WIFI_AUTH_UNKNOWN'']"
    by code_simp
  finally show ?thesis using n u scan_twelve_aps_returns by (intro conjI)
qed


end
